theory Spec2Isabelle
  imports Complex_Main "HOL-Library.Word" "HOL-Library.AList" "HOL-Library.Multiset"
begin

unbundle bit_operations_syntax

section \<open>Entity store (src/core/ECSSetup.ts)\<close>

subsection \<open>Data model\<close>

text \<open>
  Component masks and component bits are the 32-bit integers on which JavaScript's
  bitwise operators work. Entity ids are the natural numbers handed out by the
  world's counter. Component values are modelled as integers; a typed array coerces
  every value it stores, which \<open>coerce\<close> writes out for the two integer kinds
  (\<open>Int8Array\<close> wraps to a signed byte, \<open>Uint32Array\<close> wraps modulo \<open>2 ^ 32\<close>).
  A \<open>Float32Array\<close> stores every integer of magnitude up to \<open>2 ^ 24\<close> exactly;
  rounding of larger values is not modelled.
\<close>

datatype ComponentStorageKind = Float32 | Int8 | Uint32

type_synonym ComponentMask = "32 word"
type_synonym EntityId = nat

record ComponentLayout =
  l_bit :: "32 word"
  l_kind :: ComponentStorageKind
  l_defaultValue :: "int option"

text \<open>
  \<open>m_table\<close> is the reference to the owning archetype table. Tables live in the
  world's \<open>archetypes\<close> map, are never removed from it and never replaced, so a
  reference is the table's key in that map.
\<close>

record EntityMeta =
  m_mask :: ComponentMask
  m_table :: ComponentMask
  m_row :: nat
  m_active :: bool

text \<open>A typed array: its element kind and its cells.\<close>

type_synonym SoABuffer = "ComponentStorageKind \<times> int list"

record ArchetypeTable =
  t_mask :: ComponentMask
  t_length :: nat
  t_capacity :: nat
  t_entities :: "nat list"
  t_componentLayouts :: "(32 word \<times> ComponentLayout) list"
  t_columns :: "(32 word \<times> SoABuffer) list"

record World =
  nextEntityId :: nat
  archetypes :: "(ComponentMask \<times> ArchetypeTable) list"
  metadata :: "EntityId \<rightharpoonup> EntityMeta"
  layouts :: "ComponentLayout list"

text \<open>
  The three \<open>throw new Error(...)\<close> sites of the file. The first two are the
  LookupErrors of the specification. \<open>DanglingTable\<close> is no exception of the
  program: it marks a table reference that is not a key of \<open>archetypes\<close>, which
  no state of the program has.
\<close>

datatype error = UnknownEntity | AbsentComponent | InvalidRow | DanglingTable

definition LookupError :: "error \<Rightarrow> bool" where
  "LookupError e = (e = UnknownEntity \<or> e = AbsentComponent)"

subsection \<open>Typed arrays\<close>

text \<open>
  Reading a typed array out of range gives \<open>undefined\<close> (here \<open>None\<close>); writing out
  of range is ignored, which is what \<open>xs[i := v]\<close> does.
\<close>

definition ta_read :: "'a list \<Rightarrow> nat \<Rightarrow> 'a option" where
  "ta_read xs i = (if i < length xs then Some (xs ! i) else None)"

definition to_uint32 :: "nat \<Rightarrow> nat" where
  "to_uint32 n = n mod 2 ^ 32"

definition coerce :: "ComponentStorageKind \<Rightarrow> int \<Rightarrow> int" where
  "coerce k v = (case k of
      Float32 \<Rightarrow> v
    | Int8 \<Rightarrow> sint (word_of_int v :: 8 word)
    | Uint32 \<Rightarrow> uint (word_of_int v :: 32 word))"

definition createBuffer :: "ComponentStorageKind \<Rightarrow> nat \<Rightarrow> SoABuffer" where
  "createBuffer k size_n = (k, replicate size_n 0)"

definition buf_read :: "SoABuffer \<Rightarrow> nat \<Rightarrow> int option" where
  "buf_read b i = ta_read (snd b) i"

text \<open>\<open>column[row] = value\<close>; an \<open>undefined\<close> value is stored as 0.\<close>

definition buf_write :: "SoABuffer \<Rightarrow> nat \<Rightarrow> int option \<Rightarrow> SoABuffer" where
  "buf_write b i v = (fst b, (snd b)[i := coerce (fst b) (case v of None \<Rightarrow> 0 | Some x \<Rightarrow> x)])"

subsection \<open>ArchetypeTable\<close>

definition new_table ::
  "ComponentMask \<Rightarrow> (32 word \<times> ComponentLayout) list \<Rightarrow> nat \<Rightarrow> ArchetypeTable" where
  "new_table mask_v componentLayouts initialCapacity =
     (let cap = max 1 initialCapacity in
      \<lparr> t_mask = mask_v, t_length = 0, t_capacity = cap,
        t_entities = replicate cap 0,
        t_componentLayouts = componentLayouts,
        t_columns = map (\<lambda>(b, layout). (b, createBuffer (l_kind layout) cap))
                      (filter (\<lambda>(b, layout). mask_v AND b \<noteq> 0) componentLayouts) \<rparr>)"

text \<open>
  The doubling loop of \<open>ensureCapacity\<close>. The constructor clamps the capacity to
  at least 1 and nothing lowers it, so the loop of the source always ends; the
  test \<open>0 < c\<close> is what makes the recursion well-founded. \<open>growLoop\<close> is the loop
  as the source has it, without that test.
\<close>

function growCapacity :: "nat \<Rightarrow> nat \<Rightarrow> nat" where
  "growCapacity c minCapacity =
     (if c < minCapacity \<and> 0 < c then growCapacity (c * 2) minCapacity else c)"
  by pat_completeness auto
termination
  by (relation "measure (\<lambda>(c, m). m - c)") auto

declare growCapacity.simps [simp del]

partial_function (option) growLoop :: "nat \<Rightarrow> nat \<Rightarrow> nat option" where
  "growLoop c minCapacity =
     (if c < minCapacity then growLoop (c * 2) minCapacity else Some c)"

definition resizeColumn ::
  "(32 word \<times> ComponentLayout) list \<Rightarrow> nat \<Rightarrow> nat \<Rightarrow> 32 word \<times> SoABuffer \<Rightarrow> 32 word \<times> SoABuffer"
  where
  "resizeColumn componentLayouts len cap col =
     (case map_of componentLayouts (fst col) of
        None \<Rightarrow> col
      | Some layout \<Rightarrow>
          (let prev = take len (snd (snd col))
           in (fst col, (l_kind layout, prev @ replicate (cap - length prev) 0))))"

definition ensureCapacity :: "ArchetypeTable \<Rightarrow> nat \<Rightarrow> ArchetypeTable" where
  "ensureCapacity t minCapacity =
     (if t_capacity t \<ge> minCapacity then t
      else (let cap = growCapacity (t_capacity t) minCapacity;
                kept = take (t_length t) (t_entities t)
            in t\<lparr> t_capacity := cap,
                  t_entities := kept @ replicate (cap - length kept) 0,
                  t_columns := map (resizeColumn (t_componentLayouts t) (t_length t) cap)
                                   (t_columns t) \<rparr>))"

definition fallbackOf :: "(32 word \<times> ComponentLayout) list \<Rightarrow> 32 word \<Rightarrow> int" where
  "fallbackOf componentLayouts b =
     (case map_of componentLayouts b of
        None \<Rightarrow> 0
      | Some layout \<Rightarrow> (case l_defaultValue layout of None \<Rightarrow> 0 | Some d \<Rightarrow> d))"

definition insert_row ::
  "ArchetypeTable \<Rightarrow> EntityId \<Rightarrow> (32 word \<rightharpoonup> int) \<Rightarrow> nat \<times> ArchetypeTable" where
  "insert_row t entityId vals =
     (let t1 = ensureCapacity t (t_length t + 1);
          row = t_length t1;
          ents = (t_entities t1)[row := to_uint32 entityId];
          cols = map (\<lambda>(b, column).
                   (b, buf_write column row
                         (Some (case vals b of
                                  None \<Rightarrow> fallbackOf (t_componentLayouts t1) b
                                | Some v \<Rightarrow> v))))
                   (t_columns t1)
      in (row, t1\<lparr> t_entities := ents, t_columns := cols, t_length := t_length t1 + 1 \<rparr>))"

text \<open>
  \<open>removeAt\<close> returns the moved entity, \<open>null\<close> (\<open>None\<close>) when the removed row was
  the last one. The moved entity is itself a typed-array read.
\<close>

definition removeAt ::
  "ArchetypeTable \<Rightarrow> nat \<Rightarrow> error + (nat option option \<times> ArchetypeTable)" where
  "removeAt t row =
     (if row \<ge> t_length t then Inl InvalidRow
      else (let last_row = t_length t - 1;
                movedEntity = (if row \<noteq> last_row
                               then Some (ta_read (t_entities t) last_row) else None);
                t1 = (if row \<noteq> last_row
                      then t\<lparr> t_entities :=
                               (t_entities t)[row := to_uint32
                                  (case ta_read (t_entities t) last_row of
                                     None \<Rightarrow> 0 | Some e \<Rightarrow> e)],
                             t_columns :=
                               map (\<lambda>(b, column).
                                      (b, buf_write column row (buf_read column last_row)))
                                   (t_columns t) \<rparr>
                      else t)
            in Inr (movedEntity, t1\<lparr> t_length := last_row \<rparr>)))"

definition readComponent :: "ArchetypeTable \<Rightarrow> nat \<Rightarrow> 32 word \<Rightarrow> error + int option" where
  "readComponent t row componentBit =
     (case map_of (t_columns t) componentBit of
        None \<Rightarrow> Inl AbsentComponent
      | Some column \<Rightarrow> Inr (buf_read column row))"

definition writeComponent ::
  "ArchetypeTable \<Rightarrow> nat \<Rightarrow> 32 word \<Rightarrow> int \<Rightarrow> error + ArchetypeTable" where
  "writeComponent t row componentBit v =
     (case map_of (t_columns t) componentBit of
        None \<Rightarrow> Inl AbsentComponent
      | Some column \<Rightarrow>
          Inr (t\<lparr> t_columns :=
                    AList.update componentBit (buf_write column row (Some v)) (t_columns t) \<rparr>))"

definition entityAt :: "ArchetypeTable \<Rightarrow> nat \<Rightarrow> nat option" where
  "entityAt t row = ta_read (t_entities t) row"

definition hasComponent :: "ArchetypeTable \<Rightarrow> 32 word \<Rightarrow> bool" where
  "hasComponent t componentBit = (map_of (t_columns t) componentBit \<noteq> None)"

definition compatibleWith :: "ArchetypeTable \<Rightarrow> ComponentMask \<Rightarrow> bool" where
  "compatibleWith t requiredMask = (t_mask t AND requiredMask = requiredMask)"

subsection \<open>Query and World\<close>

record Query =
  requiredMask :: ComponentMask

definition new_world :: "ComponentLayout list \<Rightarrow> World" where
  "new_world ls = \<lparr> nextEntityId = 1, archetypes = [], metadata = Map.empty, layouts = ls \<rparr>"

definition mustGetMeta :: "World \<Rightarrow> EntityId \<Rightarrow> error + EntityMeta" where
  "mustGetMeta w entityId =
     (case metadata w entityId of None \<Rightarrow> Inl UnknownEntity | Some meta \<Rightarrow> Inr meta)"

text \<open>
  \<open>layoutMap.set(layout.bit, layout)\<close> for every layout in turn: a later layout
  with the same bit replaces the earlier one and keeps its place in the iteration
  order, as \<open>AList.update\<close> does.
\<close>

definition layoutMapOf :: "ComponentLayout list \<Rightarrow> (32 word \<times> ComponentLayout) list" where
  "layoutMapOf ls = foldl (\<lambda>m layout. AList.update (l_bit layout) layout m) [] ls"

text \<open>Writing back a table object that was mutated in place.\<close>

definition put_table :: "World \<Rightarrow> ComponentMask \<Rightarrow> ArchetypeTable \<Rightarrow> World" where
  "put_table w k t = w\<lparr> archetypes := AList.update k t (archetypes w) \<rparr>"

text \<open>Returns the reference to the table, the table, and the world that holds it.\<close>

definition getOrCreateArchetype ::
  "World \<Rightarrow> ComponentMask \<Rightarrow> ComponentMask \<times> ArchetypeTable \<times> World" where
  "getOrCreateArchetype w mask_v =
     (case map_of (archetypes w) mask_v of
        Some found \<Rightarrow> (mask_v, found, w)
      | None \<Rightarrow>
          (let created = new_table mask_v (layoutMapOf (layouts w)) 64
           in (mask_v, created, put_table w mask_v created)))"

text \<open>An omitted \<open>values\<close> argument is the empty map.\<close>

definition createEntity ::
  "World \<Rightarrow> ComponentMask \<Rightarrow> (32 word \<rightharpoonup> int) \<Rightarrow> EntityId \<times> World" where
  "createEntity w mask_v vals =
     (let entityId = nextEntityId w;
          w1 = w\<lparr> nextEntityId := nextEntityId w + 1 \<rparr>;
          (tref, tbl, w2) = getOrCreateArchetype w1 mask_v;
          (row, tbl') = insert_row tbl entityId vals;
          w3 = put_table w2 tref tbl'
      in (entityId,
          w3\<lparr> metadata := (metadata w3)(entityId \<mapsto>
                 \<lparr> m_mask = mask_v, m_table = tref, m_row = row, m_active = True \<rparr>) \<rparr>))"

text \<open>
  The loop of \<open>migrateEntity\<close> that resolves the value of every layout whose bit
  is in the target mask: the override, else the entity's value in the source
  table, else the layout's default.
\<close>

fun nextValuesOf ::
  "ComponentLayout list \<Rightarrow> ComponentMask \<Rightarrow> (32 word \<rightharpoonup> int) option \<Rightarrow> ArchetypeTable \<Rightarrow> nat
     \<Rightarrow> (32 word \<rightharpoonup> int) \<Rightarrow> error + (32 word \<rightharpoonup> int)" where
  "nextValuesOf [] nextMask overrides fromTable row nextValues = Inr nextValues"
| "nextValuesOf (layout # ls) nextMask overrides fromTable row nextValues =
     (if nextMask AND l_bit layout = 0
      then nextValuesOf ls nextMask overrides fromTable row nextValues
      else if (case overrides of None \<Rightarrow> False | Some ov \<Rightarrow> ov (l_bit layout) \<noteq> None)
      then nextValuesOf ls nextMask overrides fromTable row
             (nextValues(l_bit layout := (case overrides of None \<Rightarrow> None
                                          | Some ov \<Rightarrow> ov (l_bit layout))))
      else if hasComponent fromTable (l_bit layout)
      then (case readComponent fromTable row (l_bit layout) of
              Inl e \<Rightarrow> Inl e
            | Inr v \<Rightarrow> nextValuesOf ls nextMask overrides fromTable row
                        (nextValues(l_bit layout := v)))
      else nextValuesOf ls nextMask overrides fromTable row
             (nextValues(l_bit layout \<mapsto>
                (case l_defaultValue layout of None \<Rightarrow> 0 | Some d \<Rightarrow> d))))"

text \<open>
  A World operation returns the exception it threw, if any, and the world as the
  call left it. \<open>fromTable\<close> and \<open>toTable\<close> are references: when they are the same
  table, the row is removed from the table the insertion has just changed.
\<close>

definition migrateEntity ::
  "World \<Rightarrow> EntityId \<Rightarrow> ComponentMask \<Rightarrow> (32 word \<rightharpoonup> int) option \<Rightarrow> error option \<times> World"
  where
  "migrateEntity w entityId nextMask overrides =
     (case mustGetMeta w entityId of
        Inl e \<Rightarrow> (Some e, w)
      | Inr meta \<Rightarrow>
     (case map_of (archetypes w) (m_table meta) of
        None \<Rightarrow> (Some DanglingTable, w)
      | Some fromTable \<Rightarrow>
     (case nextValuesOf (layouts w) nextMask overrides fromTable (m_row meta) Map.empty of
        Inl e \<Rightarrow> (Some e, w)
      | Inr nextValues \<Rightarrow>
     (let (toRef, toTable, w1) = getOrCreateArchetype w nextMask;
          (nextRow, toTable') = insert_row toTable entityId nextValues;
          w2 = put_table w1 toRef toTable';
          fromTable2 = (if toRef = m_table meta then toTable' else fromTable)
      in (case removeAt fromTable2 (m_row meta) of
            Inl e \<Rightarrow> (Some e, w2)
          | Inr (movedEntity, fromTable') \<Rightarrow>
         (let w3 = put_table w2 (m_table meta) fromTable'
          in (case (case movedEntity of
                      None \<Rightarrow> Inr w3
                    | Some None \<Rightarrow> Inl UnknownEntity
                    | Some (Some moved) \<Rightarrow>
                        (case mustGetMeta w3 moved of
                           Inl e \<Rightarrow> Inl e
                         | Inr movedMeta \<Rightarrow>
                             Inr (w3\<lparr> metadata := (metadata w3)(moved \<mapsto>
                                         movedMeta\<lparr> m_row := m_row meta \<rparr>) \<rparr>))) of
                Inl e \<Rightarrow> (Some e, w3)
              | Inr w4 \<Rightarrow>
                  (None, w4\<lparr> metadata := (metadata w4)(entityId \<mapsto>
                           meta\<lparr> m_mask := nextMask, m_table := toRef,
                                 m_row := nextRow \<rparr>) \<rparr>))))))))"

text \<open>The optional argument \<open>value = 0\<close> is an \<open>int option\<close>.\<close>

definition addComponent ::
  "World \<Rightarrow> EntityId \<Rightarrow> 32 word \<Rightarrow> int option \<Rightarrow> error option \<times> World" where
  "addComponent w entityId componentBit value_opt =
     (let v = (case value_opt of None \<Rightarrow> 0 | Some x \<Rightarrow> x)
      in (case mustGetMeta w entityId of
            Inl e \<Rightarrow> (Some e, w)
          | Inr meta \<Rightarrow>
              if m_mask meta AND componentBit \<noteq> 0
              then (case map_of (archetypes w) (m_table meta) of
                      None \<Rightarrow> (Some DanglingTable, w)
                    | Some tbl \<Rightarrow>
                        (case writeComponent tbl (m_row meta) componentBit v of
                           Inl e \<Rightarrow> (Some e, w)
                         | Inr tbl' \<Rightarrow> (None, put_table w (m_table meta) tbl')))
              else migrateEntity w entityId (m_mask meta OR componentBit)
                     (Some [componentBit \<mapsto> v])))"

definition removeComponent :: "World \<Rightarrow> EntityId \<Rightarrow> 32 word \<Rightarrow> error option \<times> World" where
  "removeComponent w entityId componentBit =
     (case mustGetMeta w entityId of
        Inl e \<Rightarrow> (Some e, w)
      | Inr meta \<Rightarrow>
          if m_mask meta AND componentBit = 0 then (None, w)
          else migrateEntity w entityId (m_mask meta AND NOT componentBit) None)"

definition setComponent ::
  "World \<Rightarrow> EntityId \<Rightarrow> 32 word \<Rightarrow> int \<Rightarrow> error option \<times> World" where
  "setComponent w entityId componentBit v =
     (case mustGetMeta w entityId of
        Inl e \<Rightarrow> (Some e, w)
      | Inr meta \<Rightarrow>
          (case map_of (archetypes w) (m_table meta) of
             None \<Rightarrow> (Some DanglingTable, w)
           | Some tbl \<Rightarrow>
               (case writeComponent tbl (m_row meta) componentBit v of
                  Inl e \<Rightarrow> (Some e, w)
                | Inr tbl' \<Rightarrow> (None, put_table w (m_table meta) tbl'))))"

definition getComponent :: "World \<Rightarrow> EntityId \<Rightarrow> 32 word \<Rightarrow> error + int option" where
  "getComponent w entityId componentBit =
     (case mustGetMeta w entityId of
        Inl e \<Rightarrow> Inl e
      | Inr meta \<Rightarrow>
          (case map_of (archetypes w) (m_table meta) of
             None \<Rightarrow> Inl DanglingTable
           | Some tbl \<Rightarrow> readComponent tbl (m_row meta) componentBit))"

definition createQuery :: "World \<Rightarrow> ComponentMask \<Rightarrow> Query" where
  "createQuery w mask_v = \<lparr> requiredMask = mask_v \<rparr>"

definition isActive :: "World \<Rightarrow> EntityId \<Rightarrow> bool" where
  "isActive w entityId = (case metadata w entityId of None \<Rightarrow> False | Some meta \<Rightarrow> m_active meta)"

definition deactivate :: "World \<Rightarrow> EntityId \<Rightarrow> error option \<times> World" where
  "deactivate w entityId =
     (case mustGetMeta w entityId of
        Inl e \<Rightarrow> (Some e, w)
      | Inr meta \<Rightarrow>
          (None, w\<lparr> metadata := (metadata w)(entityId \<mapsto> meta\<lparr> m_active := False \<rparr>) \<rparr>))"

definition getArchetypes :: "World \<Rightarrow> ArchetypeTable list" where
  "getArchetypes w = map snd (archetypes w)"

text \<open>
  The ids that one full iteration of \<open>Query.entities\<close> yields, in order, on a world
  that does not change during the iteration. A row whose entity cell reads
  \<open>undefined\<close> yields nothing, since \<open>isActive(undefined)\<close> is false.
\<close>

definition table_entities :: "World \<Rightarrow> ArchetypeTable \<Rightarrow> EntityId list" where
  "table_entities w tbl =
     concat (map (\<lambda>row. case entityAt tbl row of
                           None \<Rightarrow> []
                         | Some entityId \<Rightarrow> if isActive w entityId then [entityId] else [])
                 [0 ..< t_length tbl])"

definition entities :: "World \<Rightarrow> Query \<Rightarrow> EntityId list" where
  "entities w q =
     concat (map (\<lambda>tbl. if compatibleWith tbl (requiredMask q) then table_entities w tbl else [])
                 (getArchetypes w))"

section \<open>Fixed-step loop (src/core/LoopManager.ts)\<close>

text \<open>
  Times are rational numbers: the arithmetic of the loop is modelled exactly, without
  the rounding of JavaScript's doubles. The hooks are the caller's code; the model
  records every call of a hook, and every request to the browser, in the order the
  loop makes them.
\<close>

record UpdateContext =
  ctx_nowMs :: rat
  ctx_fixedDt :: rat
  ctx_frameDt :: rat
  ctx_alpha :: rat
  ctx_frameIndex :: int

datatype hook_call =
    FixedUpdate UpdateContext
  | AiTick int rat
  | LateUpdate UpdateContext
  | Render UpdateContext
  | RequestAnimationFrame
  | CancelAnimationFrame nat

record LoopConfig =
  fixedStepSeconds :: "rat option"
  maxFrameDeltaSeconds :: "rat option"
  maxFixedStepsPerFrame_cfg :: "int option"

text \<open>
  \<open>rafId\<close> is the handle that \<open>requestAnimationFrame\<close> returned; the browser numbers
  its requests, so the handle is the number of requests made so far.
\<close>

record LoopManager =
  fixedStep :: rat
  maxFrameDelta :: rat
  maxFixedStepsPerFrame :: int
  hasAiScheduler :: bool
  accumulator :: rat
  running :: bool
  frameIndex :: int
  rafId :: "nat option"
  lastTimestampMs :: "rat option"
  calls :: "hook_call list"

definition new_LoopManager :: "bool \<Rightarrow> LoopConfig \<Rightarrow> LoopManager" where
  "new_LoopManager withAi config =
     \<lparr> fixedStep = (case fixedStepSeconds config of None \<Rightarrow> 1 / 60 | Some v \<Rightarrow> v),
       maxFrameDelta = (case maxFrameDeltaSeconds config of None \<Rightarrow> 1 / 4 | Some v \<Rightarrow> v),
       maxFixedStepsPerFrame = (case maxFixedStepsPerFrame_cfg config of None \<Rightarrow> 5 | Some v \<Rightarrow> v),
       hasAiScheduler = withAi,
       accumulator = 0, running = False, frameIndex = 0, rafId = None,
       lastTimestampMs = None, calls = [] \<rparr>"

definition requestAnimationFrame :: "LoopManager \<Rightarrow> LoopManager" where
  "requestAnimationFrame lm =
     lm\<lparr> calls := calls lm @ [RequestAnimationFrame],
         rafId := Some (Suc (length (filter (\<lambda>c. c = RequestAnimationFrame) (calls lm)))) \<rparr>"

definition start :: "LoopManager \<Rightarrow> LoopManager" where
  "start lm =
     (if running lm then lm
      else requestAnimationFrame (lm\<lparr> running := True, lastTimestampMs := None \<rparr>))"

definition stop :: "LoopManager \<Rightarrow> LoopManager" where
  "stop lm =
     (let lm1 = lm\<lparr> running := False \<rparr>;
          lm2 = (case rafId lm1 of
                   None \<Rightarrow> lm1
                 | Some h \<Rightarrow> lm1\<lparr> calls := calls lm1 @ [CancelAnimationFrame h], rafId := None \<rparr>)
      in lm2\<lparr> lastTimestampMs := None, accumulator := 0 \<rparr>)"

text \<open>One pass through the body of the \<open>while\<close> loop of \<open>tick\<close>.\<close>

definition fixedStep_body :: "LoopManager \<Rightarrow> rat \<Rightarrow> rat \<Rightarrow> LoopManager" where
  "fixedStep_body lm nowMs frameDt =
     (let fixedCtx = \<lparr> ctx_nowMs = nowMs, ctx_fixedDt = fixedStep lm,
                       ctx_frameDt = frameDt, ctx_alpha = 0,
                       ctx_frameIndex = frameIndex lm \<rparr>;
          lm1 = lm\<lparr> calls := calls lm @ [FixedUpdate fixedCtx] \<rparr>;
          lm2 = (if hasAiScheduler lm1
                 then lm1\<lparr> calls := calls lm1 @ [AiTick (frameIndex lm1) (fixedStep lm1)] \<rparr>
                 else lm1)
      in lm2\<lparr> accumulator := accumulator lm2 - fixedStep lm2 \<rparr>)"

text \<open>
  The \<open>while\<close> loop, from a given number of steps already run in this callback; it
  returns the loop manager and the final value of \<open>fixedSteps\<close>.
\<close>

function fixedSteps_loop ::
  "LoopManager \<Rightarrow> rat \<Rightarrow> rat \<Rightarrow> int \<Rightarrow> LoopManager \<times> int" where
  "fixedSteps_loop lm nowMs frameDt fixedSteps =
     (if accumulator lm \<ge> fixedStep lm \<and> fixedSteps < maxFixedStepsPerFrame lm
      then fixedSteps_loop (fixedStep_body lm nowMs frameDt) nowMs frameDt (fixedSteps + 1)
      else (lm, fixedSteps))"
  by pat_completeness auto
termination
  by (relation "measure (\<lambda>(lm, nowMs, frameDt, fixedSteps).
                   nat (maxFixedStepsPerFrame lm - fixedSteps))")
     (auto simp: fixedStep_body_def Let_def)

declare fixedSteps_loop.simps [simp del]

definition tick :: "LoopManager \<Rightarrow> rat \<Rightarrow> LoopManager" where
  "tick lm nowMs =
     (if \<not> running lm then lm
      else (case lastTimestampMs lm of
              None \<Rightarrow> requestAnimationFrame (lm\<lparr> lastTimestampMs := Some nowMs \<rparr>)
            | Some lastMs \<Rightarrow>
                (let rawFrameDt = (nowMs - lastMs) / 1000;
                     lm1 = lm\<lparr> lastTimestampMs := Some nowMs \<rparr>;
                     frameDt = min (max rawFrameDt 0) (maxFrameDelta lm1);
                     lm2 = lm1\<lparr> accumulator := accumulator lm1 + frameDt \<rparr>;
                     (lm3, fixedSteps) = fixedSteps_loop lm2 nowMs frameDt 0;
                     lm4 = (if fixedSteps = maxFixedStepsPerFrame lm3
                               \<and> accumulator lm3 \<ge> fixedStep lm3
                            then lm3\<lparr> accumulator := 0 \<rparr> else lm3);
                     alpha = (if fixedStep lm4 > 0 then accumulator lm4 / fixedStep lm4 else 0);
                     frameCtx = \<lparr> ctx_nowMs = nowMs, ctx_fixedDt = fixedStep lm4,
                                  ctx_frameDt = frameDt, ctx_alpha = alpha,
                                  ctx_frameIndex = frameIndex lm4 \<rparr>;
                     lm5 = lm4\<lparr> calls := calls lm4 @ [LateUpdate frameCtx, Render frameCtx] \<rparr>;
                     lm6 = lm5\<lparr> frameIndex := frameIndex lm5 + 1 \<rparr>
                 in requestAnimationFrame lm6)))"

definition isFixedUpdate :: "hook_call \<Rightarrow> bool" where
  "isFixedUpdate c = (case c of FixedUpdate ctx \<Rightarrow> True | _ \<Rightarrow> False)"

section \<open>Worker bridge (src/core/WorkerBridge.ts)\<close>

text \<open>
  A channel's worker is modelled by what the bridge does to it: the messages posted
  to it, in order, and whether it was terminated. The three views lie over
  disjoint regions of the channel's shared buffer, so each is a list of its own.
  \<open>shm_log\<close> records the \<open>Atomics\<close> calls made on the header.
\<close>

datatype WorkerDomain = physics | pathfinding | procgen

datatype WorkerMessageType = INIT | STEP | SYNC | SHUTDOWN

datatype payload =
    InitPayload string nat
  | StepPayload rat int
  | SyncPayload int
  | ShutdownPayload "string option"

record WorkerBridgeMessage =
  msg_version :: nat
  msg_type :: WorkerMessageType
  msg_domain :: WorkerDomain
  msg_timestamp :: rat
  msg_payload :: payload

datatype atomics_call = AtomicsStore nat int | AtomicsNotify nat nat

record WorkerChannel =
  ch_domain :: WorkerDomain
  ch_posted :: "WorkerBridgeMessage list"
  ch_terminated :: bool
  ch_header :: "32 word list"
  ch_transforms :: "rat list"
  ch_meta :: "32 word list"
  ch_shm_log :: "atomics_call list"

record WorkerBridge =
  channels :: "(WorkerDomain \<times> WorkerChannel) list"

datatype bridge_error = RangeError

definition WORKER_PROTOCOL_VERSION :: nat where
  "WORKER_PROTOCOL_VERSION = 1"

definition HEADER_SIZE :: nat where
  "HEADER_SIZE = 16"

definition TRANSFORM_FLOATS :: nat where
  "TRANSFORM_FLOATS = 8192"

definition META_UINTS :: nat where
  "META_UINTS = 2048"

definition send :: "WorkerChannel \<Rightarrow> WorkerMessageType \<Rightarrow> rat \<Rightarrow> payload \<Rightarrow> WorkerChannel" where
  "send channel ty now_v pl =
     channel\<lparr> ch_posted := ch_posted channel @
                [\<lparr> msg_version = WORKER_PROTOCOL_VERSION, msg_type = ty,
                   msg_domain = ch_domain channel, msg_timestamp = now_v,
                   msg_payload = pl \<rparr>] \<rparr>"

text \<open>
  \<open>Atomics.store\<close> on an \<open>Int32Array\<close>: a \<open>RangeError\<close> when the index is out of
  range, else the value is stored as a 32-bit integer.
\<close>

definition atomics_store :: "WorkerChannel \<Rightarrow> nat \<Rightarrow> int \<Rightarrow> bridge_error + WorkerChannel" where
  "atomics_store channel i v =
     (if i < length (ch_header channel)
      then Inr (channel\<lparr> ch_header := (ch_header channel)[i := word_of_int v],
                         ch_shm_log := ch_shm_log channel @ [AtomicsStore i v] \<rparr>)
      else Inl RangeError)"

definition atomics_notify :: "WorkerChannel \<Rightarrow> nat \<Rightarrow> nat \<Rightarrow> bridge_error + WorkerChannel" where
  "atomics_notify channel i n =
     (if i < length (ch_header channel)
      then Inr (channel\<lparr> ch_shm_log := ch_shm_log channel @ [AtomicsNotify i n] \<rparr>)
      else Inl RangeError)"

text \<open>
  \<open>createChannel\<close>: \<open>workerId\<close> is the generated name (the domain and the reading
  of \<open>Date.now()\<close>) and \<open>ts\<close> the reading of \<open>performance.now()\<close>.
  \<open>channels.set\<close> replaces the channel of a domain that has one.
\<close>

definition createChannel ::
  "WorkerBridge \<Rightarrow> WorkerDomain \<Rightarrow> string \<Rightarrow> rat \<Rightarrow> WorkerChannel \<times> WorkerBridge" where
  "createChannel b d workerId ts =
     (let byteLength = HEADER_SIZE * 4 + TRANSFORM_FLOATS * 4 + META_UINTS * 4;
          channel = \<lparr> ch_domain = d, ch_posted = [], ch_terminated = False,
                      ch_header = replicate HEADER_SIZE 0,
                      ch_transforms = replicate TRANSFORM_FLOATS 0,
                      ch_meta = replicate META_UINTS 0,
                      ch_shm_log = [] \<rparr>;
          channel' = send channel INIT ts (InitPayload workerId byteLength)
      in (channel', b\<lparr> channels := AList.update d channel' (channels b) \<rparr>))"

text \<open>
  The loop of \<open>step\<close> over the channels; \<open>clock k\<close> is the reading of
  \<open>performance.now()\<close> for the \<open>k\<close>-th channel visited. An exception leaves the
  loop: the channels not yet visited are as they were.
\<close>

fun step_loop ::
  "(nat \<Rightarrow> rat) \<Rightarrow> nat \<Rightarrow> int \<Rightarrow> rat \<Rightarrow> (WorkerDomain \<times> WorkerChannel) list
     \<Rightarrow> bridge_error option \<times> (WorkerDomain \<times> WorkerChannel) list" where
  "step_loop clock k frameIndex_v dt [] = (None, [])"
| "step_loop clock k frameIndex_v dt ((d, channel) # rest) =
     (let c1 = send channel STEP (clock k) (StepPayload dt frameIndex_v)
      in (case atomics_store c1 0 frameIndex_v of
            Inl e \<Rightarrow> (Some e, (d, c1) # rest)
          | Inr c2 \<Rightarrow>
              (case atomics_notify c2 0 1 of
                 Inl e \<Rightarrow> (Some e, (d, c2) # rest)
               | Inr c3 \<Rightarrow>
                   (case step_loop clock (Suc k) frameIndex_v dt rest of
                      (e, rest') \<Rightarrow> (e, (d, c3) # rest')))))"

definition step :: "WorkerBridge \<Rightarrow> (nat \<Rightarrow> rat) \<Rightarrow> int \<Rightarrow> rat \<Rightarrow> bridge_error option \<times> WorkerBridge" where
  "step b clock frameIndex_v dt =
     (case step_loop clock 0 frameIndex_v dt (channels b) of
        (e, chs) \<Rightarrow> (e, b\<lparr> channels := chs \<rparr>))"

section \<open>Chunk streaming (src/core/streaming.ts)\<close>

text \<open>
  Chunk coordinates and radii are integers. A key is the text
  \<open>cx:cy\<close> in decimal, as the template string of \<open>keyOf\<close> writes it.
\<close>

datatype ChunkPriority = High | Medium | Low

record ChunkState =
  cx :: int
  cy :: int
  key :: string
  priority :: ChunkPriority
  distance :: int
  loaded :: bool

record StreamingConfig =
  chunkSizeMeters_cfg :: "rat option"
  enterRadiusChunks_cfg :: "int option"
  exitRadiusChunks_cfg :: "int option"

record ChunkStreamingManager =
  chunkSizeMeters :: rat
  enterRadiusChunks :: int
  exitRadiusChunks :: int
  activeChunks :: "(string \<times> ChunkState) list"

definition new_ChunkStreamingManager :: "StreamingConfig \<Rightarrow> ChunkStreamingManager" where
  "new_ChunkStreamingManager config =
     (let enter = (case enterRadiusChunks_cfg config of None \<Rightarrow> 4 | Some v \<Rightarrow> v)
      in \<lparr> chunkSizeMeters = (case chunkSizeMeters_cfg config of None \<Rightarrow> 100 | Some v \<Rightarrow> v),
           enterRadiusChunks = enter,
           exitRadiusChunks = (case exitRadiusChunks_cfg config of None \<Rightarrow> enter + 2 | Some v \<Rightarrow> v),
           activeChunks = [] \<rparr>)"

definition digit_char :: "nat \<Rightarrow> char" where
  "digit_char n = char_of (48 + n)"

function string_of_nat :: "nat \<Rightarrow> string" where
  "string_of_nat n =
     (if n < 10 then [digit_char n] else string_of_nat (n div 10) @ [digit_char (n mod 10)])"
  by pat_completeness auto
termination
  by (relation "measure id") auto

declare string_of_nat.simps [simp del]

definition string_of_int :: "int \<Rightarrow> string" where
  "string_of_int i = (if i < 0 then CHR ''-'' # string_of_nat (nat (- i)) else string_of_nat (nat i))"

definition keyOf :: "int \<Rightarrow> int \<Rightarrow> string" where
  "keyOf x y = string_of_int x @ '':'' @ string_of_int y"

definition computePriority :: "int \<Rightarrow> ChunkPriority" where
  "computePriority d = (if d \<le> 1 then High else if d \<le> 3 then Medium else Low)"

text \<open>
  \<open>worldToChunk\<close> divides by the chunk size. With a chunk size of 0 the quotient is
  no finite number and the loops of \<open>updateFocus\<close> are no integer loops; the model
  gives no result (\<open>None\<close>) there.
\<close>

definition worldToChunk :: "ChunkStreamingManager \<Rightarrow> rat \<times> rat \<Rightarrow> (int \<times> int) option" where
  "worldToChunk m position =
     (if chunkSizeMeters m = 0 then None
      else Some (\<lfloor>fst position / chunkSizeMeters m\<rfloor>, \<lfloor>snd position / chunkSizeMeters m\<rfloor>))"

definition chebyshev :: "int \<times> int \<Rightarrow> int \<Rightarrow> int \<Rightarrow> int" where
  "chebyshev focus x y = max \<bar>x - fst focus\<bar> \<bar>y - snd focus\<bar>"

text \<open>The body of the inner loop of \<open>updateFocus\<close>, for one cell \<open>(x, y)\<close>.\<close>

definition loadChunk ::
  "int \<times> int \<Rightarrow> (string \<times> ChunkState) list \<Rightarrow> int \<times> int \<Rightarrow> (string \<times> ChunkState) list" where
  "loadChunk focus chunks xy =
     (let x = fst xy; y = snd xy;
          k = keyOf x y;
          d = chebyshev focus x y;
          p = computePriority d
      in (case map_of chunks k of
            None \<Rightarrow> AList.update k \<lparr> cx = x, cy = y, key = k, priority = p,
                                      distance = d, loaded = True \<rparr> chunks
          | Some existing \<Rightarrow>
              AList.update k (existing\<lparr> distance := d, priority := p, loaded := True \<rparr>) chunks))"

definition enterCells :: "int \<times> int \<Rightarrow> int \<Rightarrow> (int \<times> int) list" where
  "enterCells focus r =
     concat (map (\<lambda>y. map (\<lambda>x. (x, y)) [fst focus - r .. fst focus + r])
                 [snd focus - r .. snd focus + r])"

definition updateFocusAt :: "ChunkStreamingManager \<Rightarrow> int \<times> int \<Rightarrow> ChunkStreamingManager" where
  "updateFocusAt m focus =
     (let loaded_chunks = foldl (loadChunk focus) (activeChunks m)
                            (enterCells focus (enterRadiusChunks m));
          kept = filter (\<lambda>(k, chunk). \<not> chebyshev focus (cx chunk) (cy chunk) > exitRadiusChunks m)
                        loaded_chunks
      in m\<lparr> activeChunks := kept \<rparr>)"

definition updateFocus ::
  "ChunkStreamingManager \<Rightarrow> rat \<times> rat \<Rightarrow> (ChunkState list \<times> ChunkStreamingManager) option" where
  "updateFocus m position =
     (case worldToChunk m position of
        None \<Rightarrow> None
      | Some focus \<Rightarrow>
          (let m' = updateFocusAt m focus in Some (map snd (activeChunks m'), m')))"

definition getActiveChunks :: "ChunkStreamingManager \<Rightarrow> ChunkState list" where
  "getActiveChunks m = map snd (activeChunks m)"

section \<open>Scenarios\<close>

text \<open>
  The world of the specification's concrete scenario: a \<open>float32\<close> component on bit 1
  and a \<open>uint32\<close> component on bit 2 whose default is 5; one entity created with
  mask 1, then component 2 added with no value given.
\<close>

definition scenario_layouts :: "ComponentLayout list" where
  "scenario_layouts =
     [\<lparr> l_bit = 1, l_kind = Float32, l_defaultValue = None \<rparr>,
      \<lparr> l_bit = 2, l_kind = Uint32, l_defaultValue = Some 5 \<rparr>]"

definition scenario_created :: "EntityId \<times> World" where
  "scenario_created = createEntity (new_world scenario_layouts) 1 Map.empty"

definition scenario_added :: "error option \<times> World" where
  "scenario_added = addComponent (snd scenario_created) (fst scenario_created) 2 None"

(*PROPERTIES*)
section \<open>Properties of the entity store\<close>

lemmas ecs_defs = createEntity_def new_world_def Let_def split_def getOrCreateArchetype_def
  put_table_def new_table_def layoutMapOf_def insert_row_def ensureCapacity_def createBuffer_def
  buf_write_def buf_read_def ta_read_def to_uint32_def coerce_def fallbackOf_def
  getComponent_def mustGetMeta_def readComponent_def addComponent_def migrateEntity_def
  removeAt_def hasComponent_def writeComponent_def removeComponent_def setComponent_def
  deactivate_def isActive_def

text \<open>
  Claim C1. In the scenario world, the entity created with mask 1 has id 1 and reading
  its component 2 fails, since bit 2 is absent. \<open>addComponent\<close> called without a
  value then succeeds, and component 2 reads 0: the omitted argument is the default
  parameter \<open>value = 0\<close>, which reaches \<open>migrateEntity\<close> as an override and so comes
  before the layout's default 5.
\<close>

theorem scenario_addComponent_without_value:
  "fst scenario_created = 1
   \<and> getComponent (snd scenario_created) 1 2 = Inl AbsentComponent
   \<and> fst scenario_added = None
   \<and> getComponent (snd scenario_added) 1 2 = Inr (Some 0)"
  by (simp add: scenario_added_def scenario_created_def ecs_defs scenario_layouts_def)

text \<open>
  By contrast, an entity created with bit 2 in its mask and no value for it reads the
  layout's default.
\<close>

lemma scenario_createEntity_uses_default:
  "getComponent (snd (createEntity (new_world scenario_layouts) 2 Map.empty)) 1 2 = Inr (Some 5)"
  by (simp add: ecs_defs scenario_layouts_def)

text \<open>
  Claim C10. \<open>isActive\<close> has no failing branch. For an id without a metadata record
  it is false, where every other per-entity operation throws for the unknown entity;
  for a known entity \<open>deactivate\<close> succeeds; and after \<open>deactivate(id)\<close> it is false
  for that id in every case.
\<close>

theorem isActive_never_throws:
  "(metadata w entityId = None \<longrightarrow>
      isActive w entityId = False
      \<and> fst (addComponent w entityId b v) = Some UnknownEntity
      \<and> fst (removeComponent w entityId b) = Some UnknownEntity
      \<and> fst (setComponent w entityId b x) = Some UnknownEntity
      \<and> getComponent w entityId b = Inl UnknownEntity
      \<and> fst (deactivate w entityId) = Some UnknownEntity)
   \<and> (metadata w entityId \<noteq> None \<longrightarrow> fst (deactivate w entityId) = None)
   \<and> isActive (snd (deactivate w entityId)) entityId = False"
  by (auto simp: isActive_def addComponent_def removeComponent_def setComponent_def
        getComponent_def deactivate_def mustGetMeta_def split: option.splits)

theorem isActive_never_throws_witness:
  "metadata (new_world scenario_layouts) 7 = None
   \<and> isActive (new_world scenario_layouts) 7 = False
   \<and> getComponent (new_world scenario_layouts) 7 1 = Inl UnknownEntity
   \<and> fst (deactivate (new_world scenario_layouts) 7) = Some UnknownEntity
   \<and> metadata (snd scenario_created) 1 \<noteq> None
   \<and> isActive (snd scenario_created) 1 = True
   \<and> fst (deactivate (snd scenario_created) 1) = None
   \<and> isActive (snd (deactivate (snd scenario_created) 1)) 1 = False"
  using isActive_never_throws [of "new_world scenario_layouts" 7 1 None 0]
    isActive_never_throws [of "snd scenario_created" 1 1 None 0]
  by (simp add: scenario_created_def ecs_defs scenario_layouts_def)

section \<open>Properties of the fixed-step loop\<close>

lemma fixedStep_body_simps:
  "accumulator (fixedStep_body lm n d) = accumulator lm - fixedStep lm"
  "fixedStep (fixedStep_body lm n d) = fixedStep lm"
  "maxFixedStepsPerFrame (fixedStep_body lm n d) = maxFixedStepsPerFrame lm"
  "frameIndex (fixedStep_body lm n d) = frameIndex lm"
  "hasAiScheduler (fixedStep_body lm n d) = hasAiScheduler lm"
  "filter isFixedUpdate (calls (fixedStep_body lm n d)) =
     filter isFixedUpdate (calls lm) @
       [FixedUpdate \<lparr> ctx_nowMs = n, ctx_fixedDt = fixedStep lm, ctx_frameDt = d,
                       ctx_alpha = 0, ctx_frameIndex = frameIndex lm \<rparr>]"
  by (simp_all add: fixedStep_body_def Let_def isFixedUpdate_def)

lemma fixedSteps_loop_step:
  "accumulator lm \<ge> fixedStep lm \<Longrightarrow> k < maxFixedStepsPerFrame lm \<Longrightarrow>
   fixedSteps_loop lm n d k = fixedSteps_loop (fixedStep_body lm n d) n d (k + 1)"
  by (subst fixedSteps_loop.simps) simp

lemma fixedSteps_loop_stop:
  "\<not> (accumulator lm \<ge> fixedStep lm \<and> k < maxFixedStepsPerFrame lm) \<Longrightarrow>
   fixedSteps_loop lm n d k = (lm, k)"
  by (subst fixedSteps_loop.simps) auto

text \<open>
  Claim C6. A loop manager with a fixed step of 1/60 s, a frame delta capped at 0.25 s
  and at most 5 fixed steps per frame is running with an empty accumulator; its last
  callback came at time \<open>t\<close> (in ms). The callback at \<open>t + 5000\<close> calls \<open>FixedUpdate\<close>
  exactly 5 times, each with the frame delta clamped to 0.25 s, and leaves the
  accumulator at 0.
\<close>

theorem tick_five_second_gap:
  "(let lm0 = lm\<lparr> fixedStep := 1 / 60, maxFrameDelta := 1 / 4, maxFixedStepsPerFrame := 5,
                  accumulator := 0, running := True, lastTimestampMs := Some t \<rparr>;
        lm' = tick lm0 (t + 5000)
    in filter isFixedUpdate (calls lm') =
         filter isFixedUpdate (calls lm) @
           replicate 5 (FixedUpdate \<lparr> ctx_nowMs = t + 5000, ctx_fixedDt = 1 / 60,
                                      ctx_frameDt = 1 / 4, ctx_alpha = 0,
                                      ctx_frameIndex = frameIndex lm \<rparr>)
       \<and> accumulator lm' = 0)"
  by (simp add: tick_def Let_def requestAnimationFrame_def isFixedUpdate_def
        fixedSteps_loop_step fixedSteps_loop_stop fixedStep_body_simps numeral_eq_Suc)

end
